theory Spec2Isabelle
  imports Main "HOL-Library.Sublist"
begin

section \<open>Data model of the interactive app (\<^verbatim>\<open>app_backup.py\<close>)\<close>

text \<open>
  The four tables created by \<^verbatim>\<open>init_db\<close>. A row is a record with one field per column,
  in the column order of the \<^verbatim>\<open>CREATE TABLE\<close> statement. Integer columns are \<open>int\<close>
  (Python and SQLite integers), text columns are \<open>string\<close>. The column
  \<^verbatim>\<open>consultation_fee REAL\<close> holds whole numbers: every insert of the source binds a
  Python \<open>int\<close> (the seed tuples and \<^verbatim>\<open>st.number_input(..., 0, 10000, 1500)\<close>), so the
  fee is an \<open>int\<close> here and sums and products of fees are exact. Every insert of the
  source binds a value for every column it names, so no column is \<open>NULL\<close> in a stored
  row; \<open>NULL\<close> appears only in the padding row of a \<^verbatim>\<open>LEFT JOIN\<close> (modelled below with
  \<open>option\<close>). Two columns of different tables with the same name get a prefix.
\<close>

record department =
  dept_id :: int
  dept_name :: string
  location :: string

record doctor =
  doctor_id :: int
  doc_name :: string
  specialization :: string
  doc_dept_id :: int
  doc_phone :: string
  doc_email :: string
  experience :: int
  consultation_fee :: int

record patient =
  patient_id :: int
  pat_name :: string
  age :: int
  gender :: string
  pat_phone :: string
  pat_email :: string
  address :: string
  blood_group :: string
  registration_date :: string

record appointment =
  appointment_id :: int
  app_patient_id :: int
  app_doctor_id :: int
  appointment_date :: string
  appointment_time :: string
  status :: string
  reason :: string

text \<open>
  A table is its rows in insertion order together with the counter that SQLite keeps in
  \<^verbatim>\<open>sqlite_sequence\<close> for an \<^verbatim>\<open>INTEGER PRIMARY KEY AUTOINCREMENT\<close> column: the largest
  key ever handed out.
\<close>

record 'r table =
  rows :: "'r list"
  seq :: int

definition empty_table :: "'r table" where
  "empty_table = \<lparr>rows = [], seq = 0\<rparr>"

text \<open>
  \<^verbatim>\<open>AUTOINCREMENT\<close>: the new key is one more than the larger of the counter and the largest
  key present in the table.
\<close>

definition next_rowid :: "('r \<Rightarrow> int) \<Rightarrow> 'r table \<Rightarrow> int" where
  "next_rowid key t = fold max (map key (rows t)) (seq t) + 1"

text \<open>
  One \<^verbatim>\<open>INSERT\<close> that names every column but the key: \<open>mk\<close> builds the row from the new key
  and the bound values. \<^verbatim>\<open>executemany\<close> runs it for each tuple of a list, in order.
\<close>

definition insert_row :: "('r \<Rightarrow> int) \<Rightarrow> (int \<Rightarrow> 'v \<Rightarrow> 'r) \<Rightarrow> 'v \<Rightarrow> 'r table \<Rightarrow> 'r table" where
  "insert_row key mk v t =
     (let i = next_rowid key t in \<lparr>rows = rows t @ [mk i v], seq = i\<rparr>)"

definition executemany :: "('r \<Rightarrow> int) \<Rightarrow> (int \<Rightarrow> 'v \<Rightarrow> 'r) \<Rightarrow> 'v list \<Rightarrow> 'r table \<Rightarrow> 'r table" where
  "executemany key mk vs t = fold (insert_row key mk) vs t"

definition mk_department :: "int \<Rightarrow> string \<times> string \<Rightarrow> department" where
  "mk_department i v = (case v of (n, l) \<Rightarrow>
     \<lparr>dept_id = i, dept_name = n, location = l\<rparr>)"

definition mk_doctor ::
  "int \<Rightarrow> string \<times> string \<times> int \<times> string \<times> string \<times> int \<times> int \<Rightarrow> doctor" where
  "mk_doctor i v = (case v of (n, s, d, p, e, x, f) \<Rightarrow>
     \<lparr>doctor_id = i, doc_name = n, specialization = s, doc_dept_id = d, doc_phone = p,
      doc_email = e, experience = x, consultation_fee = f\<rparr>)"

definition mk_patient ::
  "int \<Rightarrow> string \<times> int \<times> string \<times> string \<times> string \<times> string \<times> string \<times> string \<Rightarrow> patient" where
  "mk_patient i v = (case v of (n, a, g, p, e, ad, b, r) \<Rightarrow>
     \<lparr>patient_id = i, pat_name = n, age = a, gender = g, pat_phone = p, pat_email = e,
      address = ad, blood_group = b, registration_date = r\<rparr>)"

definition mk_appointment ::
  "int \<Rightarrow> int \<times> int \<times> string \<times> string \<times> string \<times> string \<Rightarrow> appointment" where
  "mk_appointment i v = (case v of (p, d, da, ti, s, r) \<Rightarrow>
     \<lparr>appointment_id = i, app_patient_id = p, app_doctor_id = d, appointment_date = da,
      appointment_time = ti, status = s, reason = r\<rparr>)"

section \<open>Write forms\<close>

text \<open>
  The book-appointment form (lines 333 to 355). Its widgets are patient (\<open>pid\<close>), doctor (\<open>did\<close>),
  date, time and reason (\<open>why\<close>); there is no status widget. \<open>date\<close> and \<open>time\<close> stand for the texts
  \<^verbatim>\<open>date.strftime('%Y-%m-%d')\<close> and \<^verbatim>\<open>time.strftime('%I:%M %p')\<close> that the source binds.
\<close>

definition book_appointment ::
  "int \<Rightarrow> int \<Rightarrow> string \<Rightarrow> string \<Rightarrow> string \<Rightarrow> appointment table \<Rightarrow> appointment table" where
  "book_appointment pid did date time why t =
     insert_row appointment_id mk_appointment
       (pid, did, date, time, ''Scheduled'', why) t"

section \<open>Report queries\<close>

text \<open>
  The revenue query of the Analytics page (lines 366 to 373):
  \<^verbatim>\<open>
  SELECT d.name, COUNT(a.appointment_id) * d.consultation_fee as revenue
  FROM doctors d LEFT JOIN appointments a ON d.doctor_id = a.doctor_id
  WHERE a.status = 'Completed'
  GROUP BY d.name, d.consultation_fee
  ORDER BY revenue DESC
  \<close>
  \<open>left_join\<close> pairs every doctor with each appointment that carries the doctor's key, or
  with \<open>None\<close> (a row of \<open>NULL\<close>s) when there is none. The \<^verbatim>\<open>WHERE\<close> clause keeps a joined
  row when the comparison is true; on the \<open>NULL\<close> row it is \<open>NULL\<close>, so the row is dropped.
  \<^verbatim>\<open>COUNT(a.appointment_id)\<close> counts the rows of a group whose appointment key is not
  \<open>NULL\<close>. SQL leaves the order of rows with equal revenue open; the model keeps them in
  table order (SQLite may order them otherwise), and no theorem depends on it.
\<close>

definition left_join :: "doctor list \<Rightarrow> appointment list \<Rightarrow> (doctor \<times> appointment option) list" where
  "left_join ds aps =
     concat (map (\<lambda>d. let ms = filter (\<lambda>a. doctor_id d = app_doctor_id a) aps
                       in if ms = [] then [(d, None)] else map (\<lambda>a. (d, Some a)) ms) ds)"

definition where_completed :: "doctor \<times> appointment option \<Rightarrow> bool" where
  "where_completed r = (case snd r of None \<Rightarrow> False | Some a \<Rightarrow> status a = ''Completed'')"

definition group_key :: "doctor \<times> appointment option \<Rightarrow> string \<times> int" where
  "group_key r = (doc_name (fst r), consultation_fee (fst r))"

definition count_appointment_id :: "(doctor \<times> appointment option) list \<Rightarrow> int" where
  "count_appointment_id rs = int (length (filter (\<lambda>r. snd r \<noteq> None) rs))"

definition revenue_query :: "doctor list \<Rightarrow> appointment list \<Rightarrow> (string \<times> int) list" where
  "revenue_query ds aps =
     (let j = filter where_completed (left_join ds aps);
          ks = remdups (map group_key j);
          out = map (\<lambda>k. (fst k, count_appointment_id (filter (\<lambda>r. group_key r = k) j) * snd k)) ks
      in sort_key (\<lambda>r. - snd r) out)"

text \<open>
  What the specification calls a doctor's completed appointments: the appointments that
  carry the doctor's key and have status \<^verbatim>\<open>Completed\<close>.
\<close>

definition completed_appointments :: "doctor \<Rightarrow> appointment list \<Rightarrow> appointment list" where
  "completed_appointments d aps =
     filter (\<lambda>a. app_doctor_id a = doctor_id d \<and> status a = ''Completed'') aps"

text \<open>
  The columns the revenue query groups by, and the completed appointments of all doctors
  that share them.
\<close>

definition doctor_key :: "doctor \<Rightarrow> string \<times> int" where
  "doctor_key d = (doc_name d, consultation_fee d)"

definition group_completed :: "string \<times> int \<Rightarrow> doctor list \<Rightarrow> appointment list \<Rightarrow> nat" where
  "group_completed k ds aps =
     sum_list (map (\<lambda>d. length (completed_appointments d aps)) (filter (\<lambda>d. doctor_key d = k) ds))"

section \<open>Storage and bootstrap\<close>

text \<open>
  A database file holds each table or lacks it (\<open>None\<close>). The file at \<^verbatim>\<open>DB_NAME\<close> is
  absent, is not a SQLite database, or is a database.
\<close>

record database =
  departments :: "department table option"
  doctors :: "doctor table option"
  patients :: "patient table option"
  appointments :: "appointment table option"

datatype 'd store = NoFile | Garbage | Db 'd

text \<open>
  The exceptions that the modelled statements raise: \<^verbatim>\<open>sqlite3.DatabaseError\<close> (and its
  subclasses) from the driver, \<^verbatim>\<open>pandas.errors.DatabaseError\<close> from \<^verbatim>\<open>pd.read_sql\<close>,
  and Python's own \<^verbatim>\<open>IndexError\<close>, \<^verbatim>\<open>TypeError\<close> and \<^verbatim>\<open>UnboundLocalError\<close>.
\<close>

datatype exc =
  SqliteDatabaseError | PandasDatabaseError | IndexError | TypeError | UnboundLocalError

definition no_tables :: database where
  "no_tables = \<lparr>departments = None, doctors = None, patients = None, appointments = None\<rparr>"

definition table_rows :: "'r table option \<Rightarrow> 'r list" where
  "table_rows t = (case t of None \<Rightarrow> [] | Some x \<Rightarrow> rows x)"

text \<open>\<^verbatim>\<open>CREATE TABLE IF NOT EXISTS\<close>: an existing table is left as it is.\<close>

definition create_if_not_exists :: "'r table option \<Rightarrow> 'r table" where
  "create_if_not_exists t = (case t of None \<Rightarrow> empty_table | Some x \<Rightarrow> x)"

text \<open>The seed tuples of \<^verbatim>\<open>init_db\<close> (lines 76 to 104).\<close>

definition depts :: "(string \<times> string) list" where
  "depts = [(''Cardiology'', ''Building A''), (''Neurology'', ''Building B''),
            (''Orthopedics'', ''Building C''), (''Pediatrics'', ''Building D''),
            (''Emergency'', ''Building E'')]"

definition seed_doctors :: "(string \<times> string \<times> int \<times> string \<times> string \<times> int \<times> int) list" where
  "seed_doctors =
    [(''Dr. Ahmed Khan'', ''Cardiologist'', 1, ''0300-1234567'', ''ahmed@hospital.com'', 15, 2000),
     (''Dr. Sara Ali'', ''Neurologist'', 2, ''0301-2345678'', ''sara@hospital.com'', 10, 2500),
     (''Dr. Hassan Raza'', ''Orthopedic Surgeon'', 3, ''0302-3456789'', ''hassan@hospital.com'', 12, 1800),
     (''Dr. Fatima Noor'', ''Pediatrician'', 4, ''0303-4567890'', ''fatima@hospital.com'', 8, 1500),
     (''Dr. Usman Malik'', ''Emergency Physician'', 5, ''0304-5678901'', ''usman@hospital.com'', 7, 1200)]"

definition seed_patients ::
  "(string \<times> int \<times> string \<times> string \<times> string \<times> string \<times> string \<times> string) list" where
  "seed_patients =
    [(''Ali Hassan'', 35, ''Male'', ''0311-1111111'', ''ali@email.com'', ''Karachi'', ''O+'', ''2024-01-15''),
     (''Ayesha Khan'', 28, ''Female'', ''0312-2222222'', ''ayesha@email.com'', ''Lahore'', ''A+'', ''2024-01-20''),
     (''Bilal Ahmed'', 42, ''Male'', ''0313-3333333'', ''bilal@email.com'', ''Islamabad'', ''B+'', ''2024-02-10''),
     (''Zainab Ali'', 55, ''Female'', ''0314-4444444'', ''zainab@email.com'', ''Karachi'', ''AB+'', ''2024-02-15''),
     (''Hamza Malik'', 30, ''Male'', ''0315-5555555'', ''hamza@email.com'', ''Lahore'', ''O-'', ''2024-03-01'')]"

definition seed_appointments :: "(int \<times> int \<times> string \<times> string \<times> string \<times> string) list" where
  "seed_appointments =
    [(1, 1, ''2024-03-15'', ''10:00 AM'', ''Completed'', ''Chest pain''),
     (2, 2, ''2024-03-16'', ''11:00 AM'', ''Completed'', ''Headache''),
     (3, 3, ''2024-03-17'', ''02:00 PM'', ''Scheduled'', ''Knee pain''),
     (4, 4, ''2024-03-18'', ''09:00 AM'', ''Scheduled'', ''Child checkup''),
     (5, 5, ''2024-03-19'', ''03:00 PM'', ''Cancelled'', ''Emergency'')]"

text \<open>
  Lines 32 to 107 of \<^verbatim>\<open>init_db\<close>, on an open database: create the four tables where
  they are missing, count the departments, and when there is none insert the seed rows
  into all four tables. The tables are taken to have the columns of the app's own
  \<^verbatim>\<open>CREATE TABLE\<close> statements, so the inserts cannot fail.
\<close>

definition init_tables :: "database \<Rightarrow> database" where
  "init_tables d =
     (let deps = create_if_not_exists (departments d);
          docs = create_if_not_exists (doctors d);
          pats = create_if_not_exists (patients d);
          apps = create_if_not_exists (appointments d)
      in if int (length (rows deps)) = 0
         then \<lparr>departments = Some (executemany dept_id mk_department depts deps),
               doctors = Some (executemany doctor_id mk_doctor seed_doctors docs),
               patients = Some (executemany patient_id mk_patient seed_patients pats),
               appointments = Some (executemany appointment_id mk_appointment seed_appointments apps)\<rparr>
         else \<lparr>departments = Some deps, doctors = Some docs, patients = Some pats,
               appointments = Some apps\<rparr>)"

text \<open>
  Lines 21 to 30 branch on what the driver does with the file. \<open>init_db\<close> has one branch
  for each of the three outcomes, the parameter \<open>startup\<close>; which of them the driver
  produces on a given store is \<open>driver_startup\<close> below:
  \<^item> \<open>ConnectFails\<close>: \<^verbatim>\<open>sqlite3.connect\<close> raises a \<^verbatim>\<open>DatabaseError\<close>. The handler's first
    statement is \<^verbatim>\<open>conn.close()\<close> with \<^verbatim>\<open>conn\<close> never assigned, so an
    \<^verbatim>\<open>UnboundLocalError\<close> leaves \<^verbatim>\<open>init_db\<close> and the file is not touched.
  \<^item> \<open>ProbeFails\<close>: the connection opens and the probe \<^verbatim>\<open>SELECT 1\<close> raises a
    \<^verbatim>\<open>DatabaseError\<close>. The handler removes the file and connects again, which creates a
    new database without tables.
  \<^item> \<open>ProbeOk\<close>: neither raises. Connecting to an absent file creates a database without
    tables; on a file that is not a database the first \<^verbatim>\<open>CREATE TABLE\<close> raises, outside
    the \<^verbatim>\<open>try\<close>.
  The result is the file afterwards and the exception that left \<^verbatim>\<open>init_db\<close>, if any.
\<close>

datatype startup = ConnectFails | ProbeFails | ProbeOk

definition init_db :: "startup \<Rightarrow> database store \<Rightarrow> database store \<times> exc option" where
  "init_db env s =
     (case env of
        ConnectFails \<Rightarrow> (s, Some UnboundLocalError)
      | ProbeFails \<Rightarrow> (Db (init_tables no_tables), None)
      | ProbeOk \<Rightarrow>
          (case s of
             NoFile \<Rightarrow> (Db (init_tables no_tables), None)
           | Garbage \<Rightarrow> (Garbage, Some SqliteDatabaseError)
           | Db d \<Rightarrow> (Db (init_tables d), None)))"

text \<open>
  Which outcome the SQLite driver produces (the driver is not code of this repository).
  \<^verbatim>\<open>sqlite3.connect\<close> raises when the file cannot be opened (\<open>can_open\<close> is false), whatever
  it holds. Once the connection is open, \<^verbatim>\<open>SELECT 1\<close> names no table and is answered
  without reading the file: it succeeds on every store, also on a file that is not a
  database. The driver never produces \<open>ProbeFails\<close>.
\<close>

definition driver_startup :: "bool \<Rightarrow> database store \<Rightarrow> startup" where
  "driver_startup can_open s =
     (if \<not> can_open then ConnectFails
      else case s of NoFile \<Rightarrow> ProbeOk | Garbage \<Rightarrow> ProbeOk | Db d \<Rightarrow> ProbeOk)"

definition row_counts :: "database \<Rightarrow> nat \<times> nat \<times> nat \<times> nat" where
  "row_counts d =
     (length (table_rows (departments d)), length (table_rows (doctors d)),
      length (table_rows (patients d)), length (table_rows (appointments d)))"

text \<open>A store without rows: no file, or a database whose tables are missing or empty.\<close>

definition empty_store :: "database store \<Rightarrow> bool" where
  "empty_store s =
     (case s of
        NoFile \<Rightarrow> True
      | Garbage \<Rightarrow> False
      | Db d \<Rightarrow> row_counts d = (0, 0, 0, 0))"

section \<open>The standalone seeding script (\<^verbatim>\<open>database_setup.py\<close>)\<close>

text \<open>
  The script has its own schema with five tables. A row is the key followed by the bound
  tuple, in the column order of the script's \<^verbatim>\<open>INSERT\<close> statements.
\<close>

type_synonym s_department = "int \<times> string \<times> string \<times> string \<times> string"
type_synonym s_doctor = "int \<times> string \<times> string \<times> int \<times> string \<times> string \<times> int \<times> int"
type_synonym s_patient =
  "int \<times> string \<times> int \<times> string \<times> string \<times> string \<times> string \<times> string \<times> string \<times> string"
type_synonym s_appointment = "int \<times> int \<times> int \<times> string \<times> string \<times> string \<times> string \<times> string"
type_synonym s_medical_record =
  "int \<times> int \<times> int \<times> string \<times> string \<times> string \<times> string \<times> string \<times> int"

record script_database =
  s_departments :: "s_department table option"
  s_doctors :: "s_doctor table option"
  s_patients :: "s_patient table option"
  s_appointments :: "s_appointment table option"
  s_medical_records :: "s_medical_record table option"

definition departments_data :: "(string \<times> string \<times> string \<times> string) list" where
  "departments_data =
    [(''Cardiology'', ''Dr. Ahmed Khan'', ''Block A, Floor 2'', ''021-1234567''),
     (''Neurology'', ''Dr. Sarah Ali'', ''Block B, Floor 3'', ''021-2345678''),
     (''Orthopedics'', ''Dr. Hassan Sheikh'', ''Block C, Floor 1'', ''021-3456789''),
     (''Pediatrics'', ''Dr. Fatima Malik'', ''Block A, Floor 1'', ''021-4567890''),
     (''Emergency'', ''Dr. Omar Siddiqui'', ''Ground Floor'', ''021-5678901'')]"

definition doctors_data :: "(string \<times> string \<times> int \<times> string \<times> string \<times> int \<times> int) list" where
  "doctors_data =
    [(''Dr. Ahmed Khan'', ''Cardiologist'', 1, ''0300-1234567'', ''ahmed.khan@hospital.com'', 15, 3000),
     (''Dr. Sarah Ali'', ''Neurologist'', 2, ''0300-2345678'', ''sarah.ali@hospital.com'', 12, 3500),
     (''Dr. Hassan Sheikh'', ''Orthopedic Surgeon'', 3, ''0300-3456789'', ''hassan.sheikh@hospital.com'', 18, 4000),
     (''Dr. Fatima Malik'', ''Pediatrician'', 4, ''0300-4567890'', ''fatima.malik@hospital.com'', 10, 2500),
     (''Dr. Omar Siddiqui'', ''Emergency Medicine'', 5, ''0300-5678901'', ''omar.siddiqui@hospital.com'', 8, 2000),
     (''Dr. Zainab Qureshi'', ''Cardiologist'', 1, ''0300-6789012'', ''zainab.qureshi@hospital.com'', 7, 2800),
     (''Dr. Ali Raza'', ''Neurologist'', 2, ''0300-7890123'', ''ali.raza@hospital.com'', 5, 3200)]"

definition patients_data ::
  "(string \<times> int \<times> string \<times> string \<times> string \<times> string \<times> string \<times> string \<times> string) list" where
  "patients_data =
    [(''Muhammad Asif'', 45, ''Male'', ''0301-1111111'', ''asif@email.com'', ''Karachi, Pakistan'', ''0302-2222222'', ''B+'', ''2024-01-15''),
     (''Ayesha Khan'', 32, ''Female'', ''0301-3333333'', ''ayesha@email.com'', ''Lahore, Pakistan'', ''0302-4444444'', ''A+'', ''2024-01-20''),
     (''Bilal Ahmed'', 28, ''Male'', ''0301-5555555'', ''bilal@email.com'', ''Islamabad, Pakistan'', ''0302-6666666'', ''O+'', ''2024-02-01''),
     (''Sana Malik'', 35, ''Female'', ''0301-7777777'', ''sana@email.com'', ''Faisalabad, Pakistan'', ''0302-8888888'', ''AB+'', ''2024-02-10''),
     (''Ahmed Ali'', 50, ''Male'', ''0301-9999999'', ''ahmed@email.com'', ''Peshawar, Pakistan'', ''0302-0000000'', ''B-'', ''2024-02-15'')]"

definition appointments_data ::
  "(int \<times> int \<times> string \<times> string \<times> string \<times> string \<times> string) list" where
  "appointments_data =
    [(1, 1, ''2024-12-20'', ''10:00 AM'', ''Scheduled'', ''Chest pain'', ''Regular checkup''),
     (2, 2, ''2024-12-21'', ''2:00 PM'', ''Completed'', ''Headache'', ''MRI recommended''),
     (3, 3, ''2024-12-22'', ''11:00 AM'', ''Scheduled'', ''Knee pain'', ''X-ray required''),
     (4, 4, ''2024-12-23'', ''9:00 AM'', ''Scheduled'', ''Child fever'', ''Routine checkup''),
     (5, 5, ''2024-12-19'', ''8:00 PM'', ''Completed'', ''Emergency'', ''Accident case'')]"

definition medical_records_data ::
  "(int \<times> int \<times> string \<times> string \<times> string \<times> string \<times> string \<times> int) list" where
  "medical_records_data =
    [(1, 1, ''2024-12-15'', ''Hypertension'', ''Amlodipine 5mg daily'', ''Lifestyle changes recommended'', ''2025-01-15'', 3000),
     (2, 2, ''2024-12-10'', ''Migraine'', ''Sumatriptan as needed'', ''Stress management'', ''2024-12-25'', 3500),
     (5, 5, ''2024-12-19'', ''Fracture - Right arm'', ''Cast applied'', ''Surgery not required'', ''2025-01-02'', 15000)]"

definition mk_row :: "int \<Rightarrow> 'v \<Rightarrow> int \<times> 'v" where
  "mk_row i v = (i, v)"

text \<open>
  The script drops each of its tables if it exists (lines 10 to 14) and then creates it
  (lines 17 to 89): whatever a table held, afterwards it exists, is empty, and its key
  counter is gone.
\<close>

definition recreate :: "'r table option \<Rightarrow> 'r table" where
  "recreate t = empty_table"

definition no_script_tables :: script_database where
  "no_script_tables = \<lparr>s_departments = None, s_doctors = None, s_patients = None,
                        s_appointments = None, s_medical_records = None\<rparr>"

definition create_and_fill :: "script_database \<Rightarrow> script_database" where
  "create_and_fill d =
     \<lparr>s_departments = Some (executemany fst mk_row departments_data (recreate (s_departments d))),
      s_doctors = Some (executemany fst mk_row doctors_data (recreate (s_doctors d))),
      s_patients = Some (executemany fst mk_row patients_data (recreate (s_patients d))),
      s_appointments = Some (executemany fst mk_row appointments_data (recreate (s_appointments d))),
      s_medical_records =
        Some (executemany fst mk_row medical_records_data (recreate (s_medical_records d)))\<rparr>"

text \<open>
  \<^verbatim>\<open>create_hospital_database\<close> on the file \<^verbatim>\<open>hospital_new.db\<close>: connecting to an absent
  file creates a database without tables; on a file that is not a database the first
  \<^verbatim>\<open>DROP TABLE\<close> raises.
\<close>

definition create_hospital_database ::
  "script_database store \<Rightarrow> script_database store \<times> exc option" where
  "create_hospital_database s =
     (case s of
        NoFile \<Rightarrow> (Db (create_and_fill no_script_tables), None)
      | Garbage \<Rightarrow> (Garbage, Some SqliteDatabaseError)
      | Db d \<Rightarrow> (Db (create_and_fill d), None))"

definition script_row_counts :: "script_database \<Rightarrow> nat \<times> nat \<times> nat \<times> nat" where
  "script_row_counts d =
     (length (table_rows (s_departments d)), length (table_rows (s_doctors d)),
      length (table_rows (s_patients d)), length (table_rows (s_appointments d)))"

section \<open>Strings\<close>

text \<open>
  Texts are \<open>string\<close>s of \<open>char\<close>s. \<open>lower\<close> is \<^verbatim>\<open>str.lower()\<close> on ASCII text: the letters
  \<^verbatim>\<open>A\<close> to \<^verbatim>\<open>Z\<close> move to \<^verbatim>\<open>a\<close> to \<^verbatim>\<open>z\<close>, every other character stays. \<open>str_in\<close> is
  Python's \<^verbatim>\<open>sub in s\<close> on strings: \<open>sub\<close> occurs in \<open>s\<close> as a contiguous piece.
\<close>

definition lower_char :: "char \<Rightarrow> char" where
  "lower_char c =
     (case map_of (zip ''ABCDEFGHIJKLMNOPQRSTUVWXYZ'' ''abcdefghijklmnopqrstuvwxyz'') c of
        None \<Rightarrow> c
      | Some l \<Rightarrow> l)"

definition lower :: "string \<Rightarrow> string" where
  "lower s = map lower_char s"

fun starts_with :: "string \<Rightarrow> string \<Rightarrow> bool" where
  "starts_with [] s = True"
| "starts_with (c # cs) [] = False"
| "starts_with (c # cs) (x # xs) = (c = x \<and> starts_with cs xs)"

fun str_in :: "string \<Rightarrow> string \<Rightarrow> bool" where
  "str_in sub [] = (sub = [])"
| "str_in sub (x # xs) = (starts_with sub (x # xs) \<or> str_in sub xs)"

text \<open>Decimal digits of a number, as an f-string prints an integer.\<close>

definition digit :: "nat \<Rightarrow> char" where
  "digit n = ''0123456789'' ! n"

fun string_of_nat :: "nat \<Rightarrow> string" where
  "string_of_nat n =
     (if n < 10 then [digit n] else string_of_nat (n div 10) @ [digit (n mod 10)])"

declare string_of_nat.simps [simp del]

definition string_of_int :: "int \<Rightarrow> string" where
  "string_of_int i = (if i < 0 then CHR ''-'' # string_of_nat (nat (- i)) else string_of_nat (nat i))"

text \<open>
  SQLite's \<^verbatim>\<open>LIKE\<close>, pattern first: \<^verbatim>\<open>%\<close> stands for any run of characters, \<^verbatim>\<open>_\<close> for any
  one character, and any other character for itself, upper and lower case ASCII letters
  taken as equal. There is no escape character.
\<close>

fun like :: "string \<Rightarrow> string \<Rightarrow> bool" where
  "like [] t = (t = [])"
| "like (p # ps) [] = (p = CHR ''%'' \<and> like ps [])"
| "like (p # ps) (c # cs) =
     (if p = CHR ''%'' then like ps (c # cs) \<or> like (p # ps) cs
      else if p = CHR ''_'' then like ps cs
      else lower_char p = lower_char c \<and> like ps cs)"

section \<open>The canned-question dispatcher\<close>

text \<open>
  \<^verbatim>\<open>SELECT AVG(consultation_fee) FROM doctors\<close> gives \<open>NULL\<close> (\<open>None\<close>) on a table without
  rows, else the sum of the fees over their number; the pair stands for that quotient.
  The format \<^verbatim>\<open>:.0f\<close> prints the quotient rounded to the nearest integer, a tie going to
  the even neighbour, and keeps the minus sign of a negative quotient that rounds to
  zero. The quotient is taken exactly: the source computes it in floating point, which
  gives the same digits unless the quotient lies within one float rounding step of a tie.
  Formatting \<open>None\<close> with \<^verbatim>\<open>:.0f\<close> raises a \<^verbatim>\<open>TypeError\<close>.
\<close>

definition avg_fee :: "doctor list \<Rightarrow> (int \<times> nat) option" where
  "avg_fee ds = (if ds = [] then None else Some (sum_list (map consultation_fee ds), length ds))"

definition round_half_even :: "int \<Rightarrow> nat \<Rightarrow> int" where
  "round_half_even s n =
     (let q = s div int n; r = s mod int n
      in if 2 * r < int n then q
         else if 2 * r > int n then q + 1
         else if even q then q else q + 1)"

definition format_0f :: "int \<Rightarrow> nat \<Rightarrow> string" where
  "format_0f s n =
     (let r = round_half_even s n
      in if s < 0 \<and> r = 0 then ''-0'' else string_of_int r)"

text \<open>
  The query of the top-doctor branch (lines 131 to 135): appointments per doctor name,
  largest count first, one row. SQL leaves open which of several names with the largest
  count comes first, and SQLite may return another of them than the model, which takes
  the groups in table order and sorts stably. No theorem depends on the choice.
\<close>

definition top_doctor_query :: "doctor list \<Rightarrow> appointment list \<Rightarrow> (string \<times> int) list" where
  "top_doctor_query ds aps =
     (let j = left_join ds aps;
          ks = remdups (map (\<lambda>r. doc_name (fst r)) j);
          out = map (\<lambda>k. (k, count_appointment_id (filter (\<lambda>r. doc_name (fst r) = k) j))) ks
      in take 1 (sort_key (\<lambda>r. - snd r) out))"

text \<open>
  The two inner joins of the cardiology and emergency branches (lines 139 to 144, 152 to
  157). SQL fixes no order for their rows; the model lists them in the order of the
  \<^verbatim>\<open>FROM\<close> clause, and SQLite may list them otherwise. No theorem depends on the order.
\<close>

definition cardiology_query ::
  "patient list \<Rightarrow> appointment list \<Rightarrow> doctor list \<Rightarrow> (string \<times> int \<times> string) list" where
  "cardiology_query ps aps ds =
     [(pat_name p, age p, pat_phone p).
        p \<leftarrow> ps, a \<leftarrow> aps, patient_id p = app_patient_id a,
        d \<leftarrow> ds, app_doctor_id a = doctor_id d, like ''%Cardio%'' (specialization d)]"

definition emergency_query ::
  "appointment list \<Rightarrow> patient list \<Rightarrow> doctor list \<Rightarrow> (string \<times> string \<times> string) list" where
  "emergency_query aps ps ds =
     [(pat_name p, appointment_date a, reason a).
        a \<leftarrow> aps, p \<leftarrow> ps, app_patient_id a = patient_id p,
        d \<leftarrow> ds, app_doctor_id a = doctor_id d, like ''%Emergency%'' (specialization d)]"

text \<open>
  What \<^verbatim>\<open>ai_query\<close> returns: a text, the rendering \<^verbatim>\<open>result.to_string()\<close> of a data frame
  (the frame's rows stand for it; how pandas lays them out is not modelled), or
  \<^verbatim>\<open>f"Error: {str(e)}"\<close> for a caught exception \<open>e\<close> (whose message text comes from the
  library that raised it).
\<close>

datatype reply =
    Text string
  | CardiologyFrame "(string \<times> int \<times> string) list"
  | EmergencyFrame "(string \<times> string \<times> string) list"
  | ErrorText exc

text \<open>
  \<^verbatim>\<open>pd.read_sql\<close> on the connection: it raises when the file is not a database or a table
  of the statement is missing. A connection to an absent file is a database without
  tables.
\<close>

definition read_table :: "database store \<Rightarrow> (database \<Rightarrow> 'r table option) \<Rightarrow> exc + 'r list" where
  "read_table s tab =
     (case s of
        NoFile \<Rightarrow> Inl PandasDatabaseError
      | Garbage \<Rightarrow> Inl PandasDatabaseError
      | Db d \<Rightarrow> (case tab d of None \<Rightarrow> Inl PandasDatabaseError | Some t \<Rightarrow> Inr (rows t)))"

definition bind_exc :: "exc + 'a \<Rightarrow> ('a \<Rightarrow> exc + 'b) \<Rightarrow> exc + 'b" where
  "bind_exc x f = (case x of Inl e \<Rightarrow> Inl e | Inr v \<Rightarrow> f v)"

text \<open>The bodies of the five query branches, in the order of the source.\<close>

definition patient_count_branch :: "database store \<Rightarrow> exc + reply" where
  "patient_count_branch s =
     bind_exc (read_table s patients) (\<lambda>ps.
       Inr (Text (''Total Patients: '' @ string_of_int (int (length ps)))))"

definition top_doctor_branch :: "database store \<Rightarrow> exc + reply" where
  "top_doctor_branch s =
     bind_exc (read_table s doctors) (\<lambda>ds.
     bind_exc (read_table s appointments) (\<lambda>aps.
       case top_doctor_query ds aps of
         [] \<Rightarrow> Inl IndexError
       | r # _ \<Rightarrow> Inr (Text (''Top Doctor: '' @ fst r @ '' with '' @ string_of_int (snd r)
                              @ '' appointments''))))"

definition cardiology_branch :: "database store \<Rightarrow> exc + reply" where
  "cardiology_branch s =
     bind_exc (read_table s patients) (\<lambda>ps.
     bind_exc (read_table s appointments) (\<lambda>aps.
     bind_exc (read_table s doctors) (\<lambda>ds.
       let result = cardiology_query ps aps ds
       in Inr (if result \<noteq> [] then CardiologyFrame result
               else Text ''No cardiology patients found''))))"

definition average_fee_branch :: "database store \<Rightarrow> exc + reply" where
  "average_fee_branch s =
     bind_exc (read_table s doctors) (\<lambda>ds.
       case avg_fee ds of
         None \<Rightarrow> Inl TypeError
       | Some (t, n) \<Rightarrow> Inr (Text (''Average Consultation Fee: Rs. '' @ format_0f t n)))"

definition emergency_branch :: "database store \<Rightarrow> exc + reply" where
  "emergency_branch s =
     bind_exc (read_table s appointments) (\<lambda>aps.
     bind_exc (read_table s patients) (\<lambda>ps.
     bind_exc (read_table s doctors) (\<lambda>ds.
       let result = emergency_query aps ps ds
       in Inr (if result \<noteq> [] then EmergencyFrame result
               else Text ''No emergency appointments''))))"

text \<open>
  The body of the \<^verbatim>\<open>try\<close> statement (lines 126 to 161): the first condition that holds
  selects the branch. In the first condition \<^verbatim>\<open>and\<close> binds tighter than \<^verbatim>\<open>or\<close>.
\<close>

definition ai_query_try :: "database store \<Rightarrow> string \<Rightarrow> exc + reply" where
  "ai_query_try s query =
     (let query_lower = lower query
      in if str_in ''patient'' query_lower \<and> str_in ''count'' query_lower
            \<or> str_in ''how many patient'' query_lower
         then patient_count_branch s
         else if str_in ''doctor'' query_lower
                 \<and> (str_in ''most'' query_lower \<or> str_in ''top'' query_lower)
         then top_doctor_branch s
         else if str_in ''cardiology'' query_lower
         then cardiology_branch s
         else if str_in ''fee'' query_lower \<and> str_in ''average'' query_lower
         then average_fee_branch s
         else if str_in ''emergency'' query_lower
         then emergency_branch s
         else Inr (Text ''I can answer: patient count, top doctor, cardiology patients, average fee, emergency appointments''))"

text \<open>
  \<^verbatim>\<open>ai_query\<close> (lines 121 to 166). \<^verbatim>\<open>sqlite3.connect\<close> stands before the \<^verbatim>\<open>try\<close>: when
  it raises (\<open>connect_ok\<close> is false) the exception leaves \<^verbatim>\<open>ai_query\<close> (\<open>Inl\<close>). Every
  exception of the body is caught by \<^verbatim>\<open>except Exception\<close> and turned into the error
  text.
\<close>

definition ai_query :: "bool \<Rightarrow> database store \<Rightarrow> string \<Rightarrow> exc + reply" where
  "ai_query connect_ok s query =
     (if \<not> connect_ok then Inl SqliteDatabaseError
      else case ai_query_try s query of
             Inl e \<Rightarrow> Inr (ErrorText e)
           | Inr r \<Rightarrow> Inr r)"

section \<open>The patient pages\<close>

text \<open>
  The add-patient form (lines 246 to 267): an empty name is refused with a message and
  nothing is written. \<open>today\<close> stands for \<^verbatim>\<open>datetime.now().strftime('%Y-%m-%d')\<close>.
\<close>

definition add_patient ::
  "string \<Rightarrow> string \<Rightarrow> int \<Rightarrow> string \<Rightarrow> string \<Rightarrow> string \<Rightarrow> string \<Rightarrow> string
     \<Rightarrow> patient table \<Rightarrow> string + patient table" where
  "add_patient today nm ag gen ph em addr blood t =
     (if nm \<noteq> []
      then Inr (insert_row patient_id mk_patient (nm, ag, gen, ph, em, addr, blood, today) t)
      else Inl ''Name is required!'')"

text \<open>
  The patient list (lines 236 to 241). An empty search text shows every row. Otherwise
  the text is pasted between the quotes of \<^verbatim>\<open>name LIKE '%...%'\<close>. A quote character in
  the text ends the SQL literal early; what SQLite makes of the rest of the statement is
  not modelled (\<open>None\<close>).
\<close>

definition search_patients :: "string \<Rightarrow> patient list \<Rightarrow> patient list option" where
  "search_patients search ps =
     (if search = [] then Some ps
      else if CHR 0x27 \<in> set search then None
      else Some (filter (\<lambda>p. like (''%'' @ search @ ''%'') (pat_name p)) ps))"

section \<open>Example states\<close>

text \<open>The database that \<^verbatim>\<open>init_db\<close> makes when there is no file, and its tables.\<close>

definition seeded :: database where
  "seeded = init_tables no_tables"

definition seeded_departments :: "department table" where
  "seeded_departments = executemany dept_id mk_department depts empty_table"

definition seeded_doctors :: "doctor table" where
  "seeded_doctors = executemany doctor_id mk_doctor seed_doctors empty_table"

definition seeded_patients :: "patient table" where
  "seeded_patients = executemany patient_id mk_patient seed_patients empty_table"

definition seeded_appointments :: "appointment table" where
  "seeded_appointments = executemany appointment_id mk_appointment seed_appointments empty_table"

text \<open>
  Two doctors entered through the add-doctor form with the same name and the form's
  default fee, each with one completed appointment.
\<close>

definition namesake_doctors :: "doctor list" where
  "namesake_doctors =
    [\<lparr>doctor_id = 6, doc_name = ''Dr. Ali Khan'', specialization = ''Cardiologist'',
      doc_dept_id = 1, doc_phone = ''0305-1111111'', doc_email = ''ali1@hospital.com'',
      experience = 5,
      consultation_fee = 1500\<rparr>,
     \<lparr>doctor_id = 7, doc_name = ''Dr. Ali Khan'', specialization = ''Neurologist'',
      doc_dept_id = 2, doc_phone = ''0305-2222222'', doc_email = ''ali2@hospital.com'',
      experience = 5,
      consultation_fee = 1500\<rparr>]"

definition namesake_appointments :: "appointment list" where
  "namesake_appointments =
    [\<lparr>appointment_id = 6, app_patient_id = 1, app_doctor_id = 6,
      appointment_date = ''2024-04-01'', appointment_time = ''10:00 AM'',
      status = ''Completed'', reason = ''Chest pain''\<rparr>,
     \<lparr>appointment_id = 7, app_patient_id = 2, app_doctor_id = 7,
      appointment_date = ''2024-04-02'', appointment_time = ''11:00 AM'',
      status = ''Completed'', reason = ''Headache''\<rparr>]"

text \<open>A database with a department and no doctor; \<^verbatim>\<open>init_db\<close> leaves it as it is.\<close>

definition no_doctors :: database where
  "no_doctors =
    \<lparr>departments = Some \<lparr>rows = [\<lparr>dept_id = 1, dept_name = ''Cardiology'',
                                       location = ''Building A''\<rparr>], seq = 1\<rparr>,
     doctors = Some empty_table, patients = Some empty_table,
     appointments = Some empty_table\<rparr>"

section \<open>Facts about tables and the seed data\<close>

lemma rows_insert_row: "rows (insert_row key mk v t) = rows t @ [mk (next_rowid key t) v]"
  by (simp add: insert_row_def Let_def)

lemma rows_executemany_prefix: "prefix (rows t) (rows (executemany key mk vs t))"
  unfolding executemany_def
proof (induction vs arbitrary: t)
  case Nil
  show ?case by simp
next
  case (Cons v vs)
  have "prefix (rows t) (rows (insert_row key mk v t))"
    by (simp add: rows_insert_row)
  then show ?case using Cons[of "insert_row key mk v t"] by (auto intro: prefix_order.trans)
qed

lemma length_executemany:
  "length (rows (executemany key mk vs t)) = length (rows t) + length vs"
  unfolding executemany_def
  by (induction vs arbitrary: t) (simp_all add: rows_insert_row)

lemma rows_create_if_not_exists [simp]: "rows (create_if_not_exists t) = table_rows t"
  by (simp add: create_if_not_exists_def table_rows_def empty_table_def split: option.splits)

lemma fold_max_ge: "(s::int) \<le> fold max ks s"
proof (induction ks arbitrary: s)
  case Nil
  show ?case by simp
next
  case (Cons k ks)
  have "s \<le> max k s" by simp
  also have "\<dots> \<le> fold max ks (max k s)" by (rule Cons.IH)
  finally show ?case by simp
qed

lemma fold_max_ge_elem: "k \<in> set ks \<Longrightarrow> (k::int) \<le> fold max ks s"
proof (induction ks arbitrary: s)
  case Nil
  then show ?case by simp
next
  case (Cons x ks)
  show ?case
  proof (cases "k = x")
    case True
    have "k \<le> max x s" using True by simp
    also have "\<dots> \<le> fold max ks (max x s)" by (rule fold_max_ge)
    finally show ?thesis by simp
  next
    case False
    with Cons.prems have "k \<in> set ks" by simp
    then show ?thesis using Cons.IH by simp
  qed
qed

lemma next_rowid_fresh: "r \<in> set (rows t) \<Longrightarrow> key r < next_rowid key t"
  using fold_max_ge_elem[of "key r" "map key (rows t)" "seq t"]
  by (simp add: next_rowid_def)

lemma seed_lengths:
  "length depts = 5" "length seed_doctors = 5" "length seed_patients = 5"
  "length seed_appointments = 5"
  by (simp_all add: depts_def seed_doctors_def seed_patients_def seed_appointments_def)

lemma data_lengths:
  "length departments_data = 5" "length doctors_data = 7" "length patients_data = 5"
  "length appointments_data = 5"
  by (simp_all add: departments_data_def doctors_data_def patients_data_def
        appointments_data_def)

lemma seeded_tables:
  "seeded = \<lparr>departments = Some seeded_departments, doctors = Some seeded_doctors,
              patients = Some seeded_patients, appointments = Some seeded_appointments\<rparr>"
  by (simp add: seeded_def init_tables_def no_tables_def create_if_not_exists_def
        empty_table_def seeded_departments_def seeded_doctors_def seeded_patients_def
        seeded_appointments_def)

lemma rows_seeded_doctors:
  "rows seeded_doctors =
    [\<lparr>doctor_id = 1, doc_name = ''Dr. Ahmed Khan'', specialization = ''Cardiologist'',
      doc_dept_id = 1, doc_phone = ''0300-1234567'', doc_email = ''ahmed@hospital.com'',
      experience = 15, consultation_fee = 2000\<rparr>,
     \<lparr>doctor_id = 2, doc_name = ''Dr. Sara Ali'', specialization = ''Neurologist'',
      doc_dept_id = 2, doc_phone = ''0301-2345678'', doc_email = ''sara@hospital.com'',
      experience = 10, consultation_fee = 2500\<rparr>,
     \<lparr>doctor_id = 3, doc_name = ''Dr. Hassan Raza'', specialization = ''Orthopedic Surgeon'',
      doc_dept_id = 3, doc_phone = ''0302-3456789'', doc_email = ''hassan@hospital.com'',
      experience = 12, consultation_fee = 1800\<rparr>,
     \<lparr>doctor_id = 4, doc_name = ''Dr. Fatima Noor'', specialization = ''Pediatrician'',
      doc_dept_id = 4, doc_phone = ''0303-4567890'', doc_email = ''fatima@hospital.com'',
      experience = 8, consultation_fee = 1500\<rparr>,
     \<lparr>doctor_id = 5, doc_name = ''Dr. Usman Malik'', specialization = ''Emergency Physician'',
      doc_dept_id = 5, doc_phone = ''0304-5678901'', doc_email = ''usman@hospital.com'',
      experience = 7, consultation_fee = 1200\<rparr>]"
  by (simp add: seeded_doctors_def seed_doctors_def executemany_def insert_row_def
        next_rowid_def mk_doctor_def empty_table_def Let_def)

lemma rows_seeded_appointments:
  "rows seeded_appointments =
    [\<lparr>appointment_id = 1, app_patient_id = 1, app_doctor_id = 1,
      appointment_date = ''2024-03-15'', appointment_time = ''10:00 AM'',
      status = ''Completed'', reason = ''Chest pain''\<rparr>,
     \<lparr>appointment_id = 2, app_patient_id = 2, app_doctor_id = 2,
      appointment_date = ''2024-03-16'', appointment_time = ''11:00 AM'',
      status = ''Completed'', reason = ''Headache''\<rparr>,
     \<lparr>appointment_id = 3, app_patient_id = 3, app_doctor_id = 3,
      appointment_date = ''2024-03-17'', appointment_time = ''02:00 PM'',
      status = ''Scheduled'', reason = ''Knee pain''\<rparr>,
     \<lparr>appointment_id = 4, app_patient_id = 4, app_doctor_id = 4,
      appointment_date = ''2024-03-18'', appointment_time = ''09:00 AM'',
      status = ''Scheduled'', reason = ''Child checkup''\<rparr>,
     \<lparr>appointment_id = 5, app_patient_id = 5, app_doctor_id = 5,
      appointment_date = ''2024-03-19'', appointment_time = ''03:00 PM'',
      status = ''Cancelled'', reason = ''Emergency''\<rparr>]"
  by (simp add: seeded_appointments_def seed_appointments_def executemany_def insert_row_def
        next_rowid_def mk_appointment_def empty_table_def Let_def)

lemma names_seeded_patients:
  "map (\<lambda>p. (patient_id p, pat_name p)) (rows seeded_patients) =
     [(1, ''Ali Hassan''), (2, ''Ayesha Khan''), (3, ''Bilal Ahmed''), (4, ''Zainab Ali''),
      (5, ''Hamza Malik'')]"
  by (simp add: seeded_patients_def seed_patients_def executemany_def insert_row_def
        next_rowid_def mk_patient_def empty_table_def Let_def)

lemma seeded_patients_seq: "next_rowid patient_id seeded_patients = 6"
  by (simp add: seeded_patients_def seed_patients_def executemany_def insert_row_def
        next_rowid_def mk_patient_def empty_table_def Let_def)

lemma seeded_revenue:
  "revenue_query (rows seeded_doctors) (rows seeded_appointments) =
     [(''Dr. Sara Ali'', 2500), (''Dr. Ahmed Khan'', 2000)]"
  by (simp add: rows_seeded_doctors rows_seeded_appointments revenue_query_def left_join_def
        where_completed_def group_key_def count_appointment_id_def)

section \<open>Facts about strings\<close>

lemma starts_with_iff: "starts_with sub s \<longleftrightarrow> (\<exists>b. s = sub @ b)"
  by (induction sub s rule: starts_with.induct) auto

lemma str_in_iff: "str_in sub s \<longleftrightarrow> (\<exists>a b. s = a @ sub @ b)"
proof (induction s)
  case Nil
  show ?case by auto
next
  case (Cons x xs)
  show ?case
  proof
    assume "str_in sub (x # xs)"
    then consider "starts_with sub (x # xs)" | "str_in sub xs" by auto
    then show "\<exists>a b. x # xs = a @ sub @ b"
    proof cases
      case 1
      then obtain b where "x # xs = sub @ b" using starts_with_iff by blast
      then have "x # xs = [] @ sub @ b" by simp
      then show ?thesis by blast
    next
      case 2
      then obtain a b where "xs = a @ sub @ b" using Cons.IH by blast
      then have "x # xs = (x # a) @ sub @ b" by simp
      then show ?thesis by blast
    qed
  next
    assume "\<exists>a b. x # xs = a @ sub @ b"
    then obtain a b where ab: "x # xs = a @ sub @ b" by blast
    show "str_in sub (x # xs)"
    proof (cases a)
      case Nil
      with ab have "starts_with sub (x # xs)" using starts_with_iff by auto
      then show ?thesis by simp
    next
      case (Cons y ys)
      with ab have "xs = ys @ sub @ b" by simp
      then have "str_in sub xs" using Cons.IH by blast
      then show ?thesis by simp
    qed
  qed
qed

lemma str_in_refl: "str_in x x"
proof -
  have "x = [] @ x @ []" by simp
  then show ?thesis unfolding str_in_iff by blast
qed

lemma like_percent_skip: "like ps t \<Longrightarrow> like (CHR ''%'' # ps) t"
  by (cases t) simp_all

lemma like_refl: "like s s"
  by (induction s) (simp_all add: like_percent_skip)

lemma like_percent_prefix: "like ps t \<Longrightarrow> like (CHR ''%'' # ps) (a @ t)"
  by (induction a) (simp_all add: like_percent_skip)

lemma like_percent_all: "like ''%'' b"
  by (induction b) simp_all

lemma like_append_percent: "like p t \<Longrightarrow> like (p @ ''%'') (t @ b)"
proof (induction p t rule: like.induct)
  case (1 t)
  then show ?case using like_percent_all by simp
next
  case (2 p ps)
  then have "like (ps @ ''%'') b" by simp
  with 2 show ?case by (simp add: like_percent_skip)
next
  case (3 p ps c cs)
  then show ?case by (auto split: if_splits)
qed

lemma like_substring:
  assumes "str_in sub nm"
  shows "like (''%'' @ sub @ ''%'') nm"
proof -
  obtain a b where nm: "nm = a @ sub @ b" using assms str_in_iff by blast
  have "like (sub @ ''%'') (sub @ b)" by (rule like_append_percent[OF like_refl])
  then have "like (CHR ''%'' # sub @ ''%'') (a @ sub @ b)" by (rule like_percent_prefix)
  then show ?thesis by (simp add: nm)
qed

lemma round_half_even_near:
  assumes "0 < n"
  shows "\<bar>2 * (round_half_even s n * int n - s)\<bar> \<le> int n"
proof -
  define q where "q = s div int n"
  define r where "r = s mod int n"
  have s: "s = q * int n + r" by (simp add: q_def r_def)
  have r: "0 \<le> r" "r < int n" using assms by (simp_all add: r_def)
  have "round_half_even s n = q \<and> 2 * r \<le> int n
        \<or> round_half_even s n = q + 1 \<and> int n \<le> 2 * r"
    by (auto simp: round_half_even_def Let_def q_def[symmetric] r_def[symmetric])
  then show ?thesis
  proof
    assume "round_half_even s n = q \<and> 2 * r \<le> int n"
    then show ?thesis using s r by (simp add: algebra_simps)
  next
    assume "round_half_even s n = q + 1 \<and> int n \<le> 2 * r"
    then show ?thesis using s r by (simp add: algebra_simps)
  qed
qed

lemma format_0f_contains: "str_in (string_of_int (round_half_even s n)) (format_0f s n)"
proof -
  have "str_in ''0'' ''-0''" by simp
  moreover have "string_of_int 0 = ''0''"
    by (simp add: string_of_int_def string_of_nat.simps digit_def)
  ultimately show ?thesis by (simp add: format_0f_def Let_def str_in_refl)
qed

section \<open>Facts about the revenue query\<close>

lemma where_left_join:
  "filter where_completed (left_join ds aps) =
     concat (map (\<lambda>d. map (\<lambda>a. (d, Some a)) (completed_appointments d aps)) ds)"
proof (induction ds)
  case Nil
  show ?case by (simp add: left_join_def)
next
  case (Cons d ds)
  have "filter where_completed
          (let ms = filter (\<lambda>a. doctor_id d = app_doctor_id a) aps
           in if ms = [] then [(d, None)] else map (\<lambda>a. (d, Some a)) ms)
        = map (\<lambda>a. (d, Some a)) (completed_appointments d aps)"
    by (auto simp: Let_def where_completed_def completed_appointments_def filter_map o_def
          filter_empty_conv intro!: arg_cong[where f = "map _"] filter_cong)
  with Cons show ?case by (simp add: left_join_def)
qed

lemma revenue_query_alt:
  "revenue_query ds aps =
    (let j = concat (map (\<lambda>d. map (\<lambda>a. (d, Some a)) (completed_appointments d aps)) ds);
         ks = remdups (map group_key j);
         out = map (\<lambda>k. (fst k, count_appointment_id (filter (\<lambda>r. group_key r = k) j) * snd k)) ks
     in sort_key (\<lambda>r. - snd r) out)"
  by (simp add: revenue_query_def where_left_join)

lemma group_count:
  "count_appointment_id (filter (\<lambda>r. group_key r = k)
       (concat (map (\<lambda>d. map (\<lambda>a. (d, Some a)) (completed_appointments d aps)) ds)))
   = int (group_completed k ds aps)"
  unfolding group_completed_def
proof (induction ds)
  case Nil
  show ?case by (simp add: count_appointment_id_def)
next
  case (Cons d ds)
  then show ?case
    by (simp add: count_appointment_id_def filter_map o_def group_key_def doctor_key_def)
qed

lemma group_completed_one:
  "distinct (map doctor_key ds) \<Longrightarrow> d \<in> set ds \<Longrightarrow>
   group_completed (doctor_key d) ds aps = length (completed_appointments d aps)"
  unfolding group_completed_def
proof (induction ds)
  case Nil
  then show ?case by simp
next
  case (Cons e ds)
  show ?case
  proof (cases "e = d")
    case True
    have "\<forall>x \<in> set ds. doctor_key x \<noteq> doctor_key d"
      using Cons.prems(1) True by (auto simp: image_iff)
    then have "filter (\<lambda>x. doctor_key x = doctor_key d) ds = []"
      by (simp add: filter_empty_conv)
    with True show ?thesis by simp
  next
    case False
    then have "d \<in> set ds" using Cons.prems(2) by simp
    moreover have "doctor_key e \<noteq> doctor_key d"
      using Cons.prems(1) \<open>d \<in> set ds\<close> by auto
    ultimately show ?thesis using Cons by simp
  qed
qed

lemma group_keys:
  "set (map group_key (concat (map (\<lambda>d. map (\<lambda>a. (d, Some a)) (completed_appointments d aps)) ds)))
   = doctor_key ` {d \<in> set ds. completed_appointments d aps \<noteq> []}"
  by (auto simp: group_key_def doctor_key_def image_iff) (metis ex_in_conv set_empty)+

lemma revenue_rows:
  "set (revenue_query ds aps) =
     (\<lambda>k. (fst k, int (group_completed k ds aps) * snd k))
       ` doctor_key ` {d \<in> set ds. completed_appointments d aps \<noteq> []}"
  unfolding revenue_query_alt Let_def group_count
  by (simp only: set_sort set_map set_remdups group_keys[simplified set_map])

lemma revenue_rows_distinct:
  assumes "distinct (map doctor_key ds)"
  shows "set (revenue_query ds aps) =
           (\<lambda>d. (doc_name d, int (length (completed_appointments d aps)) * consultation_fee d))
             ` {d \<in> set ds. completed_appointments d aps \<noteq> []}"
proof -
  have "\<And>d. d \<in> set ds \<Longrightarrow>
          (fst (doctor_key d), int (group_completed (doctor_key d) ds aps) * snd (doctor_key d))
          = (doc_name d, int (length (completed_appointments d aps)) * consultation_fee d)"
    using group_completed_one[OF assms] by (simp add: doctor_key_def)
  then show ?thesis
    unfolding revenue_rows image_image by (intro image_cong) auto
qed

lemma completed_filter:
  assumes "\<And>a. status a = ''Completed'' \<Longrightarrow> P a"
  shows "completed_appointments d (filter P aps) = completed_appointments d aps"
  using assms by (auto simp: completed_appointments_def intro: filter_cong)

lemma revenue_ignores:
  assumes "\<And>a. status a = ''Completed'' \<Longrightarrow> P a"
  shows "revenue_query ds (filter P aps) = revenue_query ds aps"
  by (simp add: revenue_query_alt completed_filter[of P, OF assms])

lemma concat_drop_empty:
  "concat (map g (filter (\<lambda>x. g x \<noteq> []) xs)) = concat (map g xs)"
  by (induction xs) auto

lemma revenue_drop_doctors:
  "revenue_query (filter (\<lambda>d. completed_appointments d aps \<noteq> []) ds) aps = revenue_query ds aps"
proof -
  have "concat (map (\<lambda>d. map (\<lambda>a. (d, Some a)) (completed_appointments d aps))
                  (filter (\<lambda>d. completed_appointments d aps \<noteq> []) ds))
      = concat (map (\<lambda>d. map (\<lambda>a. (d, Some a)) (completed_appointments d aps)) ds)"
    using concat_drop_empty[of "\<lambda>d. map (\<lambda>a. (d, Some a)) (completed_appointments d aps)" ds]
    by simp
  then show ?thesis by (simp add: revenue_query_alt)
qed

lemma revenue_query_groups:
  "\<exists>ks. distinct ks
        \<and> set ks = doctor_key ` {d \<in> set ds. completed_appointments d aps \<noteq> []}
        \<and> revenue_query ds aps =
            sort_key (\<lambda>r. - snd r) (map (\<lambda>k. (fst k, int (group_completed k ds aps) * snd k)) ks)"
proof -
  define j where
    "j = concat (map (\<lambda>d. map (\<lambda>a. (d, Some a)) (completed_appointments d aps)) ds)"
  define ks where "ks = remdups (map group_key j)"
  have "distinct ks" by (simp add: ks_def)
  moreover have "set ks = doctor_key ` {d \<in> set ds. completed_appointments d aps \<noteq> []}"
    unfolding ks_def j_def set_remdups by (rule group_keys)
  moreover have "revenue_query ds aps =
      sort_key (\<lambda>r. - snd r) (map (\<lambda>k. (fst k, int (group_completed k ds aps) * snd k)) ks)"
    unfolding revenue_query_alt Let_def group_count ks_def j_def by (rule refl)
  ultimately show ?thesis by blast
qed

lemma revenue_length:
  "length (revenue_query ds aps) =
     card (doctor_key ` {d \<in> set ds. completed_appointments d aps \<noteq> []})"
proof -
  obtain ks where ks: "distinct ks"
      "set ks = doctor_key ` {d \<in> set ds. completed_appointments d aps \<noteq> []}"
      "revenue_query ds aps =
         sort_key (\<lambda>r. - snd r) (map (\<lambda>k. (fst k, int (group_completed k ds aps) * snd k)) ks)"
    using revenue_query_groups by blast
  have "length (revenue_query ds aps) = length ks" by (simp add: ks(3))
  also have "\<dots> = card (set ks)" using ks(1) by (simp add: distinct_card)
  finally show ?thesis by (simp add: ks(2))
qed

lemma revenue_sorted: "sorted (map (\<lambda>r. - snd r) (revenue_query ds aps))"
  by (simp add: revenue_query_def Let_def)

lemma revenue_length_distinct:
  assumes "distinct (map doctor_key ds)"
  shows "length (revenue_query ds aps) = card {d \<in> set ds. completed_appointments d aps \<noteq> []}"
proof -
  have "inj_on doctor_key (set ds)" using assms by (simp add: distinct_map)
  then have "inj_on doctor_key {d \<in> set ds. completed_appointments d aps \<noteq> []}"
    by (rule inj_on_subset) auto
  then show ?thesis by (simp add: revenue_length card_image)
qed

section \<open>Revenue by doctor\<close>

text \<open>
  C1, as the code has it. The revenue query lists exactly one row for each pair of a name
  and a fee under which some doctor has a completed appointment, and no other row; the
  row's revenue is the number of completed appointments of all doctors with that name and
  fee, times the fee, and the rows stand in order of falling revenue. When no two doctors
  share both name and fee, there is exactly one row for each doctor with a completed
  appointment: the doctor's name with (number of that doctor's appointments with status
  \<^verbatim>\<open>Completed\<close>) times the doctor's fee. In every state, removing the appointments with
  status \<^verbatim>\<open>Scheduled\<close> or \<^verbatim>\<open>Cancelled\<close> leaves the result as it is.
\<close>

theorem revenue_by_doctor:
  "set (revenue_query ds aps) =
     (\<lambda>k. (fst k, int (group_completed k ds aps) * snd k))
       ` doctor_key ` {d \<in> set ds. completed_appointments d aps \<noteq> []}
   \<and> (\<exists>ks. distinct ks
          \<and> set ks = doctor_key ` {d \<in> set ds. completed_appointments d aps \<noteq> []}
          \<and> revenue_query ds aps =
              sort_key (\<lambda>r. - snd r)
                (map (\<lambda>k. (fst k, int (group_completed k ds aps) * snd k)) ks))
   \<and> length (revenue_query ds aps) =
       card (doctor_key ` {d \<in> set ds. completed_appointments d aps \<noteq> []})
   \<and> sorted (map (\<lambda>r. - snd r) (revenue_query ds aps))
   \<and> (distinct (map doctor_key ds) \<longrightarrow>
        set (revenue_query ds aps) =
          (\<lambda>d. (doc_name d, int (length (completed_appointments d aps)) * consultation_fee d))
            ` {d \<in> set ds. completed_appointments d aps \<noteq> []}
        \<and> length (revenue_query ds aps) =
            card {d \<in> set ds. completed_appointments d aps \<noteq> []})
   \<and> revenue_query ds (filter (\<lambda>a. status a \<noteq> ''Scheduled'' \<and> status a \<noteq> ''Cancelled'') aps)
       = revenue_query ds aps"
proof (intro conjI impI)
  show "set (revenue_query ds aps) =
     (\<lambda>k. (fst k, int (group_completed k ds aps) * snd k))
       ` doctor_key ` {d \<in> set ds. completed_appointments d aps \<noteq> []}"
    by (rule revenue_rows)
next
  show "\<exists>ks. distinct ks
          \<and> set ks = doctor_key ` {d \<in> set ds. completed_appointments d aps \<noteq> []}
          \<and> revenue_query ds aps =
              sort_key (\<lambda>r. - snd r)
                (map (\<lambda>k. (fst k, int (group_completed k ds aps) * snd k)) ks)"
    by (rule revenue_query_groups)
next
  show "length (revenue_query ds aps) =
       card (doctor_key ` {d \<in> set ds. completed_appointments d aps \<noteq> []})"
    by (rule revenue_length)
next
  show "sorted (map (\<lambda>r. - snd r) (revenue_query ds aps))"
    by (rule revenue_sorted)
next
  assume "distinct (map doctor_key ds)"
  then show "set (revenue_query ds aps) =
          (\<lambda>d. (doc_name d, int (length (completed_appointments d aps)) * consultation_fee d))
            ` {d \<in> set ds. completed_appointments d aps \<noteq> []}"
    by (rule revenue_rows_distinct)
next
  assume "distinct (map doctor_key ds)"
  then show "length (revenue_query ds aps) =
            card {d \<in> set ds. completed_appointments d aps \<noteq> []}"
    by (rule revenue_length_distinct)
next
  show "revenue_query ds (filter (\<lambda>a. status a \<noteq> ''Scheduled'' \<and> status a \<noteq> ''Cancelled'') aps)
       = revenue_query ds aps"
    by (rule revenue_ignores) simp
qed

text \<open>
  On the seeded database no two doctors share name and fee, and the two doctors with a
  completed appointment are listed with one fee each, in two rows.
\<close>

theorem revenue_by_doctor_witness:
  "distinct (map doctor_key (rows seeded_doctors))
   \<and> set (revenue_query (rows seeded_doctors) (rows seeded_appointments)) =
       (\<lambda>d. (doc_name d, int (length (completed_appointments d (rows seeded_appointments)))
                            * consultation_fee d))
         ` {d \<in> set (rows seeded_doctors). completed_appointments d (rows seeded_appointments) \<noteq> []}
   \<and> length (revenue_query (rows seeded_doctors) (rows seeded_appointments)) =
       card {d \<in> set (rows seeded_doctors). completed_appointments d (rows seeded_appointments) \<noteq> []}
   \<and> length (revenue_query (rows seeded_doctors) (rows seeded_appointments)) = 2
   \<and> revenue_query (rows seeded_doctors) (rows seeded_appointments) =
       [(''Dr. Sara Ali'', 2500), (''Dr. Ahmed Khan'', 2000)]"
proof -
  have h: "distinct (map doctor_key (rows seeded_doctors))"
    by (simp add: rows_seeded_doctors doctor_key_def)
  from revenue_by_doctor [of "rows seeded_doctors" "rows seeded_appointments"] h
  have "set (revenue_query (rows seeded_doctors) (rows seeded_appointments)) =
       (\<lambda>d. (doc_name d, int (length (completed_appointments d (rows seeded_appointments)))
                            * consultation_fee d))
         ` {d \<in> set (rows seeded_doctors). completed_appointments d (rows seeded_appointments) \<noteq> []}"
    and "length (revenue_query (rows seeded_doctors) (rows seeded_appointments)) =
       card {d \<in> set (rows seeded_doctors). completed_appointments d (rows seeded_appointments) \<noteq> []}"
    by blast+
  moreover have "length (revenue_query (rows seeded_doctors) (rows seeded_appointments)) = 2"
    by (simp add: seeded_revenue)
  ultimately show ?thesis using h seeded_revenue by blast
qed

text \<open>
  The claim as stated fails where two doctors share name and fee: each of the two has one
  completed appointment at a fee of 1500, and the only row of the result shows 3000.
\<close>

theorem revenue_namesakes_counterexample:
  "revenue_query namesake_doctors namesake_appointments = [(''Dr. Ali Khan'', 3000)]
   \<and> map (\<lambda>d. (doctor_id d, doc_name d,
                int (length (completed_appointments d namesake_appointments)) * consultation_fee d))
       namesake_doctors
     = [(6, ''Dr. Ali Khan'', 1500), (7, ''Dr. Ali Khan'', 1500)]"
  by (simp add: revenue_query_def left_join_def where_completed_def group_key_def
        count_appointment_id_def completed_appointments_def namesake_doctors_def
        namesake_appointments_def)

text \<open>
  C10. Every row of the revenue result carries the name of a doctor who has at least one
  appointment with status \<^verbatim>\<open>Completed\<close>; the doctors without a completed appointment add
  nothing to the result (taking them out of the doctors table leaves it as it is), so a
  name none of whose doctors has a completed appointment is not listed at all, neither
  with revenue 0 nor otherwise.
\<close>

theorem revenue_lists_completed_only:
  "(\<forall>r \<in> set (revenue_query ds aps).
      \<exists>d \<in> set ds. doc_name d = fst r \<and> completed_appointments d aps \<noteq> [])
   \<and> revenue_query (filter (\<lambda>d. completed_appointments d aps \<noteq> []) ds) aps = revenue_query ds aps
   \<and> ((\<forall>d \<in> set ds. doc_name d = n \<longrightarrow> completed_appointments d aps = [])
        \<longrightarrow> n \<notin> fst ` set (revenue_query ds aps))"
proof -
  have listed: "\<forall>r \<in> set (revenue_query ds aps).
      \<exists>d \<in> set ds. doc_name d = fst r \<and> completed_appointments d aps \<noteq> []"
    unfolding revenue_rows by (auto simp: doctor_key_def)
  then have "(\<forall>d \<in> set ds. doc_name d = n \<longrightarrow> completed_appointments d aps = [])
        \<longrightarrow> n \<notin> fst ` set (revenue_query ds aps)"
    by (metis (no_types, lifting) image_iff)
  with listed revenue_drop_doctors show ?thesis by blast
qed

text \<open>
  On the seeded database Dr. Hassan Raza has one appointment, which is scheduled, and is
  not in the result; the two listed names have a completed appointment each.
\<close>

theorem revenue_lists_completed_only_witness:
  "revenue_query (rows seeded_doctors) (rows seeded_appointments) =
     [(''Dr. Sara Ali'', 2500), (''Dr. Ahmed Khan'', 2000)]
   \<and> filter (\<lambda>d. doc_name d = ''Dr. Hassan Raza''
                \<and> completed_appointments d (rows seeded_appointments) \<noteq> []) (rows seeded_doctors) = []
   \<and> ''Dr. Hassan Raza'' \<notin> fst ` set (revenue_query (rows seeded_doctors) (rows seeded_appointments))
   \<and> (\<exists>d \<in> set (rows seeded_doctors). doc_name d = ''Dr. Sara Ali''
         \<and> completed_appointments d (rows seeded_appointments) \<noteq> [])"
proof -
  have none: "filter (\<lambda>d. doc_name d = ''Dr. Hassan Raza''
                \<and> completed_appointments d (rows seeded_appointments) \<noteq> []) (rows seeded_doctors) = []"
    by (simp add: rows_seeded_doctors rows_seeded_appointments completed_appointments_def)
  then have h: "\<forall>d \<in> set (rows seeded_doctors). doc_name d = ''Dr. Hassan Raza''
                  \<longrightarrow> completed_appointments d (rows seeded_appointments) = []"
    by (simp add: filter_empty_conv)
  have m: "(''Dr. Sara Ali'', 2500) \<in> set (revenue_query (rows seeded_doctors) (rows seeded_appointments))"
    by (simp add: seeded_revenue)
  from revenue_lists_completed_only [of "rows seeded_doctors" "rows seeded_appointments"
      "''Dr. Hassan Raza''"] h
  have a: "''Dr. Hassan Raza'' \<notin> fst ` set (revenue_query (rows seeded_doctors) (rows seeded_appointments))"
    by blast
  from revenue_lists_completed_only [of "rows seeded_doctors" "rows seeded_appointments"
      "''Dr. Hassan Raza''"] m
  have b: "\<exists>d \<in> set (rows seeded_doctors). doc_name d = ''Dr. Sara Ali''
         \<and> completed_appointments d (rows seeded_appointments) \<noteq> []"
    by fastforce
  from seeded_revenue none a b show ?thesis by blast
qed

section \<open>Patient search\<close>

text \<open>
  C2, as the code has it. After a patient with a non-empty name \<open>nm\<close> is added through the
  form, searching the patient list by a non-empty piece \<open>sub\<close> of \<open>nm\<close> that has no quote
  character returns the stored patients whose name matches \<^verbatim>\<open>%sub%\<close> under \<^verbatim>\<open>LIKE\<close>, in
  table order, and the new row (which has a key no stored row has) is the last of them. It
  returns the new row and no other exactly when no patient stored before matches.
\<close>

theorem search_after_add:
  assumes "nm \<noteq> []" and "sub \<noteq> []" and "CHR 0x27 \<notin> set sub" and "str_in sub nm"
  shows "\<exists>t'. add_patient today nm ag gen ph em addr blood t = Inr t'
           \<and> rows t' = rows t @ [last (rows t')]
           \<and> pat_name (last (rows t')) = nm
           \<and> patient_id (last (rows t')) \<notin> patient_id ` set (rows t)
           \<and> search_patients sub (rows t') =
               Some (filter (\<lambda>p. like (''%'' @ sub @ ''%'') (pat_name p)) (rows t) @ [last (rows t')])
           \<and> ((\<forall>p \<in> set (rows t). \<not> like (''%'' @ sub @ ''%'') (pat_name p))
                \<longleftrightarrow> search_patients sub (rows t') = Some [last (rows t')])"
proof -
  define new where
    "new = mk_patient (next_rowid patient_id t) (nm, ag, gen, ph, em, addr, blood, today)"
  define t' where
    "t' = insert_row patient_id mk_patient (nm, ag, gen, ph, em, addr, blood, today) t"
  have add: "add_patient today nm ag gen ph em addr blood t = Inr t'"
    using assms(1) by (simp add: add_patient_def t'_def)
  have rows: "rows t' = rows t @ [new]"
    by (simp add: t'_def new_def insert_row_def Let_def)
  then have last: "last (rows t') = new" by simp
  have name: "pat_name new = nm" by (simp add: new_def mk_patient_def)
  have id: "patient_id new = next_rowid patient_id t" by (simp add: new_def mk_patient_def)
  have fresh: "patient_id new \<notin> patient_id ` set (rows t)"
    using next_rowid_fresh[of _ t patient_id] id by force
  have m: "like (''%'' @ sub @ ''%'') (pat_name new)"
    using like_substring[OF assms(4)] name by simp
  have search: "search_patients sub (rows t') =
      Some (filter (\<lambda>p. like (''%'' @ sub @ ''%'') (pat_name p)) (rows t) @ [new])"
    using assms(2,3) m by (simp add: search_patients_def rows)
  have alone: "(\<forall>p \<in> set (rows t). \<not> like (''%'' @ sub @ ''%'') (pat_name p))
                \<longleftrightarrow> search_patients sub (rows t') = Some [new]"
    unfolding search by (simp add: filter_empty_conv)
  show ?thesis
    using add rows name fresh search alone unfolding last[symmetric] by blast
qed

text \<open>
  On the seeded patients table: no seeded name matches \<^verbatim>\<open>%Sidd%\<close>, so the search returns
  the added row alone.
\<close>

theorem search_after_add_witness:
  "str_in ''Sidd'' ''Omar Siddiqui''
   \<and> filter (\<lambda>p. like ''%Sidd%'' (pat_name p)) (rows seeded_patients) = []
   \<and> (\<exists>t'. add_patient ''2024-04-01'' ''Omar Siddiqui'' 40 ''Male'' ''0316-6666666''
              ''omar@email.com'' ''Quetta'' ''O+'' seeded_patients = Inr t'
          \<and> pat_name (last (rows t')) = ''Omar Siddiqui''
          \<and> search_patients ''Sidd'' (rows t') = Some [last (rows t')])"
proof -
  have h: "str_in ''Sidd'' ''Omar Siddiqui''" by simp
  have "filter (\<lambda>x. like ''%Sidd%'' (snd x))
          (map (\<lambda>p. (patient_id p, pat_name p)) (rows seeded_patients)) = []"
    unfolding names_seeded_patients by (simp add: lower_char_def)
  then have none: "filter (\<lambda>p. like ''%Sidd%'' (pat_name p)) (rows seeded_patients) = []"
    by (simp add: filter_map o_def)
  then have "\<forall>p \<in> set (rows seeded_patients). \<not> like (''%'' @ ''Sidd'' @ ''%'') (pat_name p)"
    by (simp add: filter_empty_conv)
  with search_after_add [of "''Omar Siddiqui''" "''Sidd''", OF _ _ _ h,
      of "''2024-04-01''" 40 "''Male''" "''0316-6666666''" "''omar@email.com''" "''Quetta''"
         "''O+''" seeded_patients]
  have "\<exists>t'. add_patient ''2024-04-01'' ''Omar Siddiqui'' 40 ''Male'' ''0316-6666666''
              ''omar@email.com'' ''Quetta'' ''O+'' seeded_patients = Inr t'
          \<and> pat_name (last (rows t')) = ''Omar Siddiqui''
          \<and> search_patients ''Sidd'' (rows t') = Some [last (rows t')]"
    by auto
  with h none show ?thesis by blast
qed

text \<open>
  The claim as stated fails when a stored name matches too: after \<^verbatim>\<open>Ali Raza\<close> is added to
  the seeded table, the search for \<^verbatim>\<open>Ali\<close> returns four rows, among them
  \<^verbatim>\<open>Hamza Malik\<close>, whose name has the letters in another case.
\<close>

theorem search_namesake_counterexample:
  "(case add_patient ''2024-04-01'' ''Ali Raza'' 40 ''Male'' ''0316-6666666'' ''raza@email.com''
           ''Quetta'' ''O+'' seeded_patients of
      Inl m \<Rightarrow> None
    | Inr t' \<Rightarrow> map_option (map (\<lambda>p. (patient_id p, pat_name p))) (search_patients ''Ali'' (rows t')))
   = Some [(1, ''Ali Hassan''), (4, ''Zainab Ali''), (5, ''Hamza Malik''), (6, ''Ali Raza'')]"
proof -
  have "filter (\<lambda>x. like ''%Ali%'' (snd x))
          (map (\<lambda>p. (patient_id p, pat_name p)) (rows seeded_patients))
        = [(1, ''Ali Hassan''), (4, ''Zainab Ali''), (5, ''Hamza Malik'')]"
    unfolding names_seeded_patients by (simp add: lower_char_def)
  then have "map (\<lambda>p. (patient_id p, pat_name p))
               (filter (\<lambda>p. like ''%Ali%'' (pat_name p)) (rows seeded_patients))
        = [(1, ''Ali Hassan''), (4, ''Zainab Ali''), (5, ''Hamza Malik'')]"
    by (simp add: filter_map o_def)
  moreover have "like ''%Ali%'' ''Ali Raza''" by (simp add: lower_char_def)
  ultimately show ?thesis
    by (simp add: add_patient_def search_patients_def rows_insert_row mk_patient_def
          seeded_patients_seq)
qed

section \<open>The dispatcher\<close>

lemma average_fee_selected: "ai_query_try s ''average fee?'' = average_fee_branch s"
  by (simp add: ai_query_try_def lower_def lower_char_def)

lemma top_doctor_selected:
  "ai_query_try s ''Which doctor has most appointments?'' = top_doctor_branch s"
  by (simp add: ai_query_try_def lower_def lower_char_def)

text \<open>
  C3, as the code has it. For every database with at least one doctor, the dispatcher
  applied to the literal \<^verbatim>\<open>average fee?\<close> returns the text
  \<^verbatim>\<open>Average Consultation Fee: Rs. \<close> followed by the mean of all doctors' fees printed
  with \<^verbatim>\<open>:.0f\<close>. The printed text contains the digits of an integer that lies within one
  half of the mean (written without fractions: twice the distance between the integer
  times the number of doctors and the sum of the fees is at most the number of doctors).
\<close>

theorem average_fee_reply:
  assumes "doctors d = Some t" and "rows t \<noteq> []"
  shows "ai_query True (Db d) ''average fee?'' =
           Inr (Text (''Average Consultation Fee: Rs. ''
                      @ format_0f (sum_list (map consultation_fee (rows t))) (length (rows t))))
         \<and> str_in (string_of_int (round_half_even (sum_list (map consultation_fee (rows t)))
                                     (length (rows t))))
                  (format_0f (sum_list (map consultation_fee (rows t))) (length (rows t)))
         \<and> \<bar>2 * (round_half_even (sum_list (map consultation_fee (rows t))) (length (rows t))
                   * int (length (rows t))
                 - sum_list (map consultation_fee (rows t)))\<bar> \<le> int (length (rows t))"
proof -
  have "average_fee_branch (Db d) =
          Inr (Text (''Average Consultation Fee: Rs. ''
                      @ format_0f (sum_list (map consultation_fee (rows t))) (length (rows t))))"
    using assms by (simp add: average_fee_branch_def bind_exc_def read_table_def avg_fee_def)
  then have "ai_query True (Db d) ''average fee?'' =
          Inr (Text (''Average Consultation Fee: Rs. ''
                      @ format_0f (sum_list (map consultation_fee (rows t))) (length (rows t))))"
    by (simp add: ai_query_def average_fee_selected)
  moreover have "0 < length (rows t)" using assms(2) by simp
  ultimately show ?thesis
    using format_0f_contains round_half_even_near by blast
qed

text \<open>On the seeded database the fees sum to 9000 over five doctors.\<close>

theorem average_fee_reply_witness:
  "doctors seeded = Some seeded_doctors \<and> rows seeded_doctors \<noteq> []
   \<and> ai_query True (Db seeded) ''average fee?'' = Inr (Text ''Average Consultation Fee: Rs. 1800'')"
proof -
  have d: "doctors seeded = Some seeded_doctors" by (simp add: seeded_tables)
  have r: "rows seeded_doctors \<noteq> []" by (simp add: rows_seeded_doctors)
  have "format_0f (sum_list (map consultation_fee (rows seeded_doctors)))
          (length (rows seeded_doctors)) = ''1800''"
    by (simp add: rows_seeded_doctors format_0f_def round_half_even_def string_of_int_def
          string_of_nat.simps digit_def)
  with average_fee_reply [OF d r] d r show ?thesis by simp
qed

text \<open>
  The claim as stated fails on a database without doctors: the average is \<open>NULL\<close>, the
  format raises, and the reply is the error text.
\<close>

theorem average_fee_no_doctors_counterexample:
  "ai_query True (Db no_doctors) ''average fee?'' = Inr (ErrorText TypeError)
   \<and> avg_fee (table_rows (doctors no_doctors)) = None"
  by (simp add: ai_query_def average_fee_selected average_fee_branch_def bind_exc_def
        read_table_def avg_fee_def no_doctors_def empty_table_def table_rows_def)

text \<open>
  C7. For every input string and every store, once the connection is open the dispatcher
  returns a reply and lets no exception through; when the selected query raises \<open>e\<close>, the
  reply is the error text made from \<open>e\<close>.
\<close>

theorem ai_query_catches:
  "(\<exists>r. ai_query True s q = Inr r)
   \<and> (ai_query_try s q = Inl e \<longrightarrow> ai_query True s q = Inr (ErrorText e))"
  by (cases "ai_query_try s q") (simp_all add: ai_query_def)

text \<open>
  The top-doctor question on a database without doctors: the query has no row,
  \<^verbatim>\<open>result.iloc[0]\<close> raises, and the dispatcher returns the error text.
\<close>

theorem ai_query_catches_witness:
  "ai_query_try (Db no_doctors) ''Which doctor has most appointments?'' = Inl IndexError
   \<and> ai_query True (Db no_doctors) ''Which doctor has most appointments?''
       = Inr (ErrorText IndexError)"
proof -
  have "ai_query_try (Db no_doctors) ''Which doctor has most appointments?'' = Inl IndexError"
    by (simp add: top_doctor_selected top_doctor_branch_def bind_exc_def read_table_def
          no_doctors_def empty_table_def top_doctor_query_def left_join_def)
  with ai_query_catches [of "Db no_doctors" "''Which doctor has most appointments?''" IndexError]
  show ?thesis by simp
qed

text \<open>
  C9. For every input string whose lower-casing contains \<^verbatim>\<open>how many patient\<close>, the
  dispatcher runs the patient-count branch, whatever else the string contains; on a
  database with a patients table the reply is \<^verbatim>\<open>Total Patients: \<close> and the number of
  its rows.
\<close>

theorem how_many_patient_first:
  assumes "str_in ''how many patient'' (lower q)"
  shows "ai_query_try s q = patient_count_branch s
         \<and> (patients d = Some t \<longrightarrow>
              ai_query True (Db d) q
                = Inr (Text (''Total Patients: '' @ string_of_int (int (length (rows t))))))"
proof -
  have sel: "\<And>s. ai_query_try s q = patient_count_branch s"
    using assms by (simp add: ai_query_try_def Let_def)
  have "patients d = Some t \<Longrightarrow>
          patient_count_branch (Db d)
            = Inr (Text (''Total Patients: '' @ string_of_int (int (length (rows t)))))"
    by (simp add: patient_count_branch_def bind_exc_def read_table_def)
  with sel show ?thesis by (simp add: ai_query_def)
qed

text \<open>A question with the keywords of every later branch, on the seeded database.\<close>

theorem how_many_patient_first_witness:
  "str_in ''how many patient''
     (lower ''How many patients did the top doctor see in cardiology or emergency, and at what average fee?'')
   \<and> str_in ''doctor''
     (lower ''How many patients did the top doctor see in cardiology or emergency, and at what average fee?'')
   \<and> str_in ''emergency''
     (lower ''How many patients did the top doctor see in cardiology or emergency, and at what average fee?'')
   \<and> ai_query True (Db seeded)
       ''How many patients did the top doctor see in cardiology or emergency, and at what average fee?''
     = Inr (Text ''Total Patients: 5'')"
proof -
  have l: "lower ''How many patients did the top doctor see in cardiology or emergency, and at what average fee?''
      = ''how many patients did the top doctor see in cardiology or emergency, and at what average fee?''"
    by (simp add: lower_def lower_char_def)
  have h: "str_in ''how many patient''
     (lower ''How many patients did the top doctor see in cardiology or emergency, and at what average fee?'')"
    unfolding l by simp
  have k: "str_in ''doctor''
     (lower ''How many patients did the top doctor see in cardiology or emergency, and at what average fee?'')"
    "str_in ''emergency''
     (lower ''How many patients did the top doctor see in cardiology or emergency, and at what average fee?'')"
    unfolding l by simp_all
  have p: "patients seeded = Some seeded_patients" by (simp add: seeded_tables)
  have n: "length (rows seeded_patients) = 5"
    using arg_cong[OF names_seeded_patients, of length] by simp
  have "string_of_int 5 = ''5''"
    by (simp add: string_of_int_def string_of_nat.simps digit_def)
  with how_many_patient_first [OF h, of _ seeded seeded_patients] p n
  have "ai_query True (Db seeded)
       ''How many patients did the top doctor see in cardiology or emergency, and at what average fee?''
     = Inr (Text ''Total Patients: 5'')"
    by simp
  with h k show ?thesis by blast
qed

section \<open>Bootstrap\<close>

lemma init_tables_empty:
  assumes "row_counts d = (0, 0, 0, 0)"
  shows "row_counts (init_tables d) = (5, 5, 5, 5)"
  using assms
  by (simp add: row_counts_def init_tables_def Let_def length_executemany seed_lengths
        table_rows_def[of "Some _"])

lemma no_tables_counts: "row_counts no_tables = (0, 0, 0, 0)"
  by (simp add: row_counts_def no_tables_def table_rows_def)

lemma script_counts: "script_row_counts (create_and_fill d) = (5, 7, 5, 5)"
  by (simp add: script_row_counts_def create_and_fill_def table_rows_def length_executemany
        data_lengths recreate_def empty_table_def)

text \<open>
  C5. For every database whose departments table has a row, running \<^verbatim>\<open>init_db\<close> (with
  the connection and the probe succeeding) raises nothing and leaves the rows of every
  table as they were: none inserted, none removed. When all four tables exist the
  database is unchanged altogether.
\<close>

theorem init_db_idempotent:
  assumes "departments d = Some t" and "rows t \<noteq> []"
  shows "\<exists>d'. init_db ProbeOk (Db d) = (Db d', None)
           \<and> table_rows (departments d') = table_rows (departments d)
           \<and> table_rows (doctors d') = table_rows (doctors d)
           \<and> table_rows (patients d') = table_rows (patients d)
           \<and> table_rows (appointments d') = table_rows (appointments d)
           \<and> (doctors d \<noteq> None \<and> patients d \<noteq> None \<and> appointments d \<noteq> None \<longrightarrow> d' = d)"
  using assms
  by (auto simp: init_db_def init_tables_def Let_def table_rows_def[of "Some _"]
        create_if_not_exists_def[of "Some _"])

text \<open>Running \<^verbatim>\<open>init_db\<close> on the database it seeded changes nothing.\<close>

theorem init_db_idempotent_witness:
  "departments seeded = Some seeded_departments \<and> rows seeded_departments \<noteq> []
   \<and> init_db ProbeOk (Db seeded) = (Db seeded, None)"
proof -
  have d: "departments seeded = Some seeded_departments" by (simp add: seeded_tables)
  have "length (rows seeded_departments) = 5"
    by (simp add: seeded_departments_def length_executemany seed_lengths empty_table_def)
  then have r: "rows seeded_departments \<noteq> []" by auto
  have "doctors seeded \<noteq> None \<and> patients seeded \<noteq> None \<and> appointments seeded \<noteq> None"
    by (simp add: seeded_tables)
  with init_db_idempotent [OF d r] have "init_db ProbeOk (Db seeded) = (Db seeded, None)"
    by auto
  with d r show ?thesis by blast
qed

text \<open>
  C6. After \<^verbatim>\<open>init_db\<close> on a store without rows (no file, or a database whose tables are
  missing or empty), with the connection opening, the department, doctor, patient and
  appointment tables hold 5, 5, 5 and 5 rows. After the standalone script, on any store
  that is a database or absent, they hold 5, 7, 5 and 5 rows.
\<close>

theorem bootstrap_seed_counts:
  "(env \<noteq> ConnectFails \<and> empty_store s \<longrightarrow>
      (\<exists>d. init_db env s = (Db d, None) \<and> row_counts d = (5, 5, 5, 5)))
   \<and> (s' \<noteq> Garbage \<longrightarrow>
      (\<exists>d. create_hospital_database s' = (Db d, None) \<and> script_row_counts d = (5, 7, 5, 5)))"
proof (intro conjI impI)
  assume a: "env \<noteq> ConnectFails \<and> empty_store s"
  show "\<exists>d. init_db env s = (Db d, None) \<and> row_counts d = (5, 5, 5, 5)"
  proof (cases env)
    case ConnectFails
    with a show ?thesis by simp
  next
    case ProbeFails
    then show ?thesis
      by (simp add: init_db_def init_tables_empty no_tables_counts)
  next
    case ProbeOk
    with a show ?thesis
      by (cases s) (simp_all add: init_db_def empty_store_def init_tables_empty no_tables_counts)
  qed
next
  assume "s' \<noteq> Garbage"
  then show "\<exists>d. create_hospital_database s' = (Db d, None) \<and> script_row_counts d = (5, 7, 5, 5)"
    by (cases s') (simp_all add: create_hospital_database_def script_counts)
qed

text \<open>Both initializers started without a file.\<close>

theorem bootstrap_seed_counts_witness:
  "ProbeOk \<noteq> ConnectFails \<and> empty_store NoFile
   \<and> init_db ProbeOk NoFile = (Db seeded, None)
   \<and> row_counts seeded = (5, 5, 5, 5)
   \<and> create_hospital_database NoFile = (Db (create_and_fill no_script_tables), None)
   \<and> script_row_counts (create_and_fill no_script_tables) = (5, 7, 5, 5)"
  using bootstrap_seed_counts [of ProbeOk NoFile NoFile]
  by (simp add: empty_store_def init_db_def create_hospital_database_def seeded_def)

text \<open>
  What each branch of lines 21 to 30 does: the handler, were the probe to raise, would
  discard the store and end with the seeded database; with the probe succeeding the store
  is kept and on a database every stored row stays in place.
\<close>

lemma init_db_outcomes:
  "init_db ProbeFails s = (Db seeded, None)
   \<and> init_db ProbeOk NoFile = (Db seeded, None)
   \<and> init_db ProbeOk Garbage = (Garbage, Some SqliteDatabaseError)
   \<and> init_db ConnectFails s = (s, Some UnboundLocalError)
   \<and> (\<exists>d'. init_db ProbeOk (Db d) = (Db d', None)
         \<and> prefix (table_rows (departments d)) (table_rows (departments d'))
         \<and> prefix (table_rows (doctors d)) (table_rows (doctors d'))
         \<and> prefix (table_rows (patients d)) (table_rows (patients d'))
         \<and> prefix (table_rows (appointments d)) (table_rows (appointments d')))"
  using rows_executemany_prefix[of "create_if_not_exists (departments d)" dept_id mk_department depts]
    rows_executemany_prefix[of "create_if_not_exists (doctors d)" doctor_id mk_doctor seed_doctors]
    rows_executemany_prefix[of "create_if_not_exists (patients d)" patient_id mk_patient seed_patients]
    rows_executemany_prefix[of "create_if_not_exists (appointments d)" appointment_id mk_appointment seed_appointments]
  by (simp add: init_db_def init_tables_def Let_def table_rows_def[of "Some _"] seeded_def)

text \<open>
  C8 says that a storage file that is corrupt or unreadable is discarded at startup and
  recreated fresh. The code does not do so. On a file that is not a database the
  connection opens and the probe \<^verbatim>\<open>SELECT 1\<close> succeeds, so the handler is not entered; the
  first \<^verbatim>\<open>CREATE TABLE\<close> then raises outside the \<^verbatim>\<open>try\<close>, \<^verbatim>\<open>init_db\<close> ends with that
  exception and the file is as it was. On a file that cannot be opened the handler is
  entered and raises at \<^verbatim>\<open>conn.close()\<close>, and the file is as it was. With the driver as it
  is, the discarding branch is taken on no store.
\<close>

theorem init_db_corrupt_not_recovered:
  "driver_startup True Garbage = ProbeOk
   \<and> init_db (driver_startup True Garbage) Garbage = (Garbage, Some SqliteDatabaseError)
   \<and> driver_startup False Garbage = ConnectFails
   \<and> init_db (driver_startup False Garbage) Garbage = (Garbage, Some UnboundLocalError)
   \<and> driver_startup can_open s \<noteq> ProbeFails
   \<and> fst (init_db (driver_startup can_open Garbage) Garbage) = Garbage"
  by (cases s) (simp_all add: driver_startup_def init_db_def)

section \<open>Booking\<close>

text \<open>
  C4. Every submission of the book-appointment form, for any patient, doctor, date, time
  and reason and any appointments table, appends exactly one row to the table, and that
  row has status \<^verbatim>\<open>Scheduled\<close> and carries the submitted values; the rows already stored
  are untouched.
\<close>

theorem book_appointment_scheduled:
  "rows (book_appointment pid did date time why t) =
     rows t @ [\<lparr>appointment_id = next_rowid appointment_id t, app_patient_id = pid,
                app_doctor_id = did, appointment_date = date, appointment_time = time,
                status = ''Scheduled'', reason = why\<rparr>]
   \<and> status (last (rows (book_appointment pid did date time why t))) = ''Scheduled''"
  by (simp add: book_appointment_def insert_row_def mk_appointment_def Let_def)

end
